theory Spec2Isabelle
  imports Complex_Main
begin

section \<open>Incremental collaborative filtering: the \<open>Step\<close> engine of \<open>nbs/step.ipynb\<close>\<close>

text \<open>
  The engine composes four pluggable collaborators (a model with two embedding tables, an
  objective, an optimizer and a confidence function). Numbers are idealised: a tensor entry is
  a value of an ordered field instead of an IEEE float, so rounding is not part of the model;
  the one non-number the engine can produce by itself, the mean of an empty tensor, is written
  out. Moving a tensor between devices (\<open>.to(device)\<close>, \<open>.cpu()\<close>) does not change its
  entries and is the identity here.
\<close>

subsection \<open>Exceptions\<close>

text \<open>
  The first group are the Python exceptions that the source and the torch calls it makes raise.
  The second group are the error names of the specification's taxonomy; no path of the source
  raises them, they are here so that a statement about them can be written down.
\<close>

datatype error =
    AssertionError | AttributeError | TypeError | IndexError | RuntimeError | FileNotFoundError
  | MissingEmbeddingError | ConfigurationError | MalformedBatchError | UnknownUserError

subsection \<open>Tensors\<close>

text \<open>A tensor of dimension 0 or 1.\<close>

datatype 'a tensor = Scalar 'a | Vec "'a list"

fun numel :: "'a tensor \<Rightarrow> nat" where
  "numel (Scalar x) = 1"
| "numel (Vec xs) = length xs"

text \<open>
  A tensor of dimension 2, of shape \<open>[nrows, ncols]\<close>. The number of columns is kept beside
  the rows because a tensor with no row still has one.
\<close>

record 'a matrix =
  ncols :: nat
  rows :: "'a list list"

definition nrows :: "'a matrix \<Rightarrow> nat" where
  "nrows M = length (rows M)"

text \<open>\<open>features[:, j]\<close> for \<open>j \<ge> 0\<close>: torch raises IndexError when the column does not exist
  (every row of a tensor has \<open>ncols\<close> entries).\<close>

definition column :: "'a matrix \<Rightarrow> nat \<Rightarrow> error + 'a tensor" where
  "column M j = (if j < ncols M then Inr (Vec (map (\<lambda>r. r ! j) (rows M))) else Inl IndexError)"

text \<open>
  \<open>xs[start:]\<close> of Python: a negative start counts from the end and is clamped at the
  beginning of the sequence.
\<close>

definition py_slice_from :: "int \<Rightarrow> 'b list \<Rightarrow> 'b list" where
  "py_slice_from start xs =
     (if start < 0 then drop (nat (int (length xs) + start)) xs else drop (nat start) xs)"

text \<open>Slicing a tensor of dimension 0 raises IndexError.\<close>

fun slice_from :: "int \<Rightarrow> 'b tensor \<Rightarrow> error + 'b tensor" where
  "slice_from start (Scalar x) = Inl IndexError"
| "slice_from start (Vec xs) = Inr (Vec (py_slice_from start xs))"

text \<open>
  \<open>argsort\<close>: the indices that sort the entries ascending. torch leaves the order of equal
  entries open; this is the stable one.
\<close>

definition argsort :: "('a::linorder) list \<Rightarrow> nat list" where
  "argsort xs = sort_key (\<lambda>i. xs ! i) [0..<length xs]"

fun argsort_t :: "('a::linorder) tensor \<Rightarrow> nat tensor" where
  "argsort_t (Scalar x) = Scalar 0"
| "argsort_t (Vec xs) = Vec (argsort xs)"

text \<open>\<open>squeeze()\<close> of a tensor of shape \<open>[n, 1]\<close>: every dimension of size 1 goes, so a single
  row leaves a tensor of dimension 0.\<close>

fun squeeze_col :: "'a list \<Rightarrow> 'a tensor" where
  "squeeze_col [x] = Scalar x"
| "squeeze_col xs = Vec xs"

definition dot :: "('a::semiring_0) list \<Rightarrow> 'a list \<Rightarrow> 'a" where
  "dot xs ys = sum_list (map2 (*) xs ys)"

subsection \<open>The model\<close>

text \<open>
  An attribute of the model object: not there at all, \<open>None\<close>, or an \<open>nn.Embedding\<close>, which is
  its weight matrix (one row per id).
\<close>

datatype 'a attr = Missing | IsNone | Present 'a

record 'a model =
  user_embeddings :: "'a matrix attr"
  item_embeddings :: "'a matrix attr"
  training :: bool

text \<open>
  Calling an embedding on the one-element index tensor \<open>[i]\<close> gives the row of \<open>i\<close>. An index
  out of range (a negative one too) raises IndexError on the cpu device when the table has
  rows, and RuntimeError when it has none (the lookup then fails in \<open>index_select\<close>). On an
  accelerator the range check is an assertion of the device's kernel, which reaches Python as
  RuntimeError.
\<close>

definition lookup_error :: "string \<Rightarrow> 'a matrix \<Rightarrow> error" where
  "lookup_error dev E = (if dev = ''cpu'' \<and> nrows E \<noteq> 0 then IndexError else RuntimeError)"

definition embedding_lookup :: "string \<Rightarrow> 'a matrix \<Rightarrow> int \<Rightarrow> error + 'a list" where
  "embedding_lookup dev E i =
     (if 0 \<le> i \<and> i < int (nrows E) then Inr (rows E ! nat i) else Inl (lookup_error dev E))"

text \<open>\<open>item_embeddings @ user_embedding.transpose(0, 1)\<close>, a column of one score per item;
  the inner dimensions have to agree.\<close>

definition scores :: "('a::semiring_0) matrix \<Rightarrow> 'a list \<Rightarrow> 'a list" where
  "scores V ue = map (\<lambda>r. dot r ue) (rows V)"

definition matmul_col :: "('a::semiring_0) matrix \<Rightarrow> nat \<Rightarrow> 'a list \<Rightarrow> error + 'a list" where
  "matmul_col V d ue = (if ncols V = d then Inr (scores V ue) else Inl RuntimeError)"

text \<open>
  \<open>self.user_embeddings(user)\<close> reads the attribute and calls it; \<open>self.item_embeddings.weight\<close>
  reads the attribute and then its weight.
\<close>

fun call_embedding :: "string \<Rightarrow> 'a matrix attr \<Rightarrow> int \<Rightarrow> error + 'a list" where
  "call_embedding dev Missing i = Inl AttributeError"
| "call_embedding dev IsNone i = Inl TypeError"
| "call_embedding dev (Present E) i = embedding_lookup dev E i"

fun weight :: "'a matrix attr \<Rightarrow> error + 'a matrix" where
  "weight Missing = Inl AttributeError"
| "weight IsNone = Inl AttributeError"
| "weight (Present E) = Inr E"

text \<open>The mode flag of the model: \<open>model.eval()\<close> and \<open>model.train()\<close>.\<close>

definition eval_mode :: "'a model \<Rightarrow> 'a model" where
  "eval_mode m = m\<lparr>training := False\<rparr>"

definition train_mode :: "'a model \<Rightarrow> 'a model" where
  "train_mode m = m\<lparr>training := True\<rparr>"

subsection \<open>The engine object\<close>

text \<open>
  An objective either has no \<open>weight\<close> attribute and maps predictions and targets to a loss
  tensor, or has one and reads it when it is called (\<open>None\<close> while nothing is stored there).
\<close>

datatype 'a objective =
    Unweighted "'a tensor \<Rightarrow> 'a tensor \<Rightarrow> 'a tensor"
  | Weighted "'a tensor option \<Rightarrow> 'a tensor \<Rightarrow> 'a tensor \<Rightarrow> 'a tensor"

text \<open>
  What \<open>backward()\<close> differentiates: a number, the not-a-number that the mean of an empty
  tensor is, or a tensor that is no scalar.
\<close>

datatype 'a loss_value = Value 'a | NaN | NotScalar

text \<open>
  The fields of \<open>self\<close>. The model, the objective and the optimizer are objects with state of
  their own: the model's parameters and mode flag, the gradient buffers of its parameters
  (type \<open>'g\<close>), the objective's weight, the optimizer's state (type \<open>'o\<close>). Their code is not
  part of the engine and is a function field each: the forward pass, torch's differentiation
  of a loss (as a function of the model) into the gradient buffers, the optimizer's update of
  the parameters and its clearing of the buffers. These functions are total: an exception
  raised inside a collaborator (a model that does not know an id, say) is not modelled.
\<close>

record ('a, 'o, 'g) Step =
  model :: "'a model"
  forward :: "'a model \<Rightarrow> 'a tensor \<Rightarrow> 'a tensor \<Rightarrow> 'a tensor"
  grads :: 'g
  autograd :: "('a model \<Rightarrow> 'a loss_value) \<Rightarrow> 'a model \<Rightarrow> 'g \<Rightarrow> 'g"
  objective :: "'a objective"
  objective_weight :: "'a tensor option"
  opt_step_fn :: "'o \<Rightarrow> 'g \<Rightarrow> 'a model \<Rightarrow> 'o \<times> 'a model"
  opt_zero_grad_fn :: "'g \<Rightarrow> 'g"
  opt_state :: 'o
  conf_func :: "'a tensor \<Rightarrow> 'a tensor"
  device :: string

text \<open>The default argument \<open>lambda x: torch.tensor(1)\<close>.\<close>

definition default_conf_func :: "('a::one) tensor \<Rightarrow> 'a tensor" where
  "default_conf_func x = Scalar 1"

subsection \<open>\<open>Step.__init__\<close>\<close>

text \<open>
  \<open>model.to(device)\<close> raises RuntimeError for a device this machine does not have
  (\<open>devices\<close> lists those it has). An absent attribute raises AttributeError when the
  assertion reads it; \<open>None\<close> fails the assertion; an \<open>nn.Embedding\<close> is true whatever its size.
  The arguments of the constructor are the fields of the record it is given; where the caller
  leaves them out, \<open>conf_func\<close> is \<open>default_conf_func\<close> and \<open>device\<close> is \<open>cpu\<close>.
\<close>

fun assert_attr :: "'a attr \<Rightarrow> error option" where
  "assert_attr Missing = Some AttributeError"
| "assert_attr IsNone = Some AssertionError"
| "assert_attr (Present x) = None"

definition init :: "string list \<Rightarrow> ('a, 'o, 'g) Step \<Rightarrow> error + ('a, 'o, 'g) Step" where
  "init devices self =
     (if device self \<notin> set devices then Inl RuntimeError
      else case assert_attr (user_embeddings (model self)) of
             Some e \<Rightarrow> Inl e
           | None \<Rightarrow> (case assert_attr (item_embeddings (model self)) of
                        Some e \<Rightarrow> Inl e
                      | None \<Rightarrow> Inr self))"

subsection \<open>One pass of the training pipeline\<close>

text \<open>\<open>if hasattr(self.objective, 'weight'): self.objective.weight = confs\<close>\<close>

definition set_weight :: "('a, 'o, 'g) Step \<Rightarrow> 'a tensor \<Rightarrow> ('a, 'o, 'g) Step" where
  "set_weight self confs =
     (case objective self of
        Unweighted f \<Rightarrow> self
      | Weighted f \<Rightarrow> self\<lparr>objective_weight := Some confs\<rparr>)"

text \<open>\<open>self.objective(preds, prefs)\<close>\<close>

definition objective_call :: "('a, 'o, 'g) Step \<Rightarrow> 'a tensor \<Rightarrow> 'a tensor \<Rightarrow> 'a tensor" where
  "objective_call self preds prefs =
     (case objective self of
        Unweighted f \<Rightarrow> f preds prefs
      | Weighted f \<Rightarrow> f (objective_weight self) preds prefs)"

text \<open>\<open>.mean()\<close>: of a tensor without entries it is not a number.\<close>

fun tensor_mean :: "('a::field) tensor \<Rightarrow> 'a loss_value" where
  "tensor_mean (Scalar x) = Value x"
| "tensor_mean (Vec []) = NaN"
| "tensor_mean (Vec xs) = Value (sum_list xs / of_nat (length xs))"

text \<open>The loss \<open>backward()\<close> starts from when it is called on a tensor directly: its one
  entry. torch raises RuntimeError for a tensor with another number of entries.\<close>

fun tensor_item :: "'a tensor \<Rightarrow> 'a loss_value" where
  "tensor_item (Scalar x) = Value x"
| "tensor_item (Vec [x]) = Value x"
| "tensor_item (Vec xs) = NotScalar"

text \<open>\<open>loss.backward()\<close> adds the gradient of the loss at the current parameters to the
  gradient buffers.\<close>

definition loss_backward ::
  "('a, 'o, 'g) Step \<Rightarrow> ('a model \<Rightarrow> 'a loss_value) \<Rightarrow> ('a, 'o, 'g) Step" where
  "loss_backward self loss = self\<lparr>grads := autograd self loss (model self) (grads self)\<rparr>"

text \<open>\<open>self.optimizer.step()\<close> updates the parameters from the buffers; the optimizer holds
  the parameters only, the mode flag of the model is out of its reach.\<close>

definition optimizer_step :: "('a, 'o, 'g) Step \<Rightarrow> ('a, 'o, 'g) Step" where
  "optimizer_step self =
     (case opt_step_fn self (opt_state self) (grads self) (model self) of
        (st, m) \<Rightarrow> self\<lparr>model := m\<lparr>training := training (model self)\<rparr>, opt_state := st\<rparr>)"

text \<open>\<open>self.optimizer.zero_grad()\<close>\<close>

definition optimizer_zero_grad :: "('a, 'o, 'g) Step \<Rightarrow> ('a, 'o, 'g) Step" where
  "optimizer_zero_grad self = self\<lparr>grads := opt_zero_grad_fn self (grads self)\<rparr>"

text \<open>\<open>self.model.train()\<close>\<close>

definition model_train :: "('a, 'o, 'g) Step \<Rightarrow> ('a, 'o, 'g) Step" where
  "model_train self = self\<lparr>model := train_mode (model self)\<rparr>"

subsection \<open>\<open>Step.predict\<close>\<close>

text \<open>
  \<open>user\<close> is the id in the one-element tensor the caller passes, which \<open>user.to(self.device)\<close>
  moves to the engine's device. \<open>model.eval()\<close> switches the training flag off, also when the
  call then fails.
\<close>

definition predict_result ::
  "string \<Rightarrow> ('a::linordered_idom) model \<Rightarrow> int \<Rightarrow> int \<Rightarrow> error + nat tensor" where
  "predict_result dev m user k =
     (case call_embedding dev (user_embeddings m) user of
        Inl e \<Rightarrow> Inl e
      | Inr user_embedding \<Rightarrow>
          (case weight (item_embeddings m) of
             Inl e \<Rightarrow> Inl e
           | Inr V \<Rightarrow>
               (case matmul_col V (length user_embedding) user_embedding of
                  Inl e \<Rightarrow> Inl e
                | Inr score \<Rightarrow> slice_from (- k) (argsort_t (squeeze_col score)))))"

definition predict ::
  "('a::linordered_idom, 'o, 'g) Step \<Rightarrow> int \<Rightarrow> int \<Rightarrow> (error + nat tensor) \<times> ('a, 'o, 'g) Step" where
  "predict self user k =
     (predict_result (device self) (eval_mode (model self)) user k,
      self\<lparr>model := eval_mode (model self)\<rparr>)"

subsection \<open>\<open>Step.batch_fit\<close>\<close>

text \<open>
  A batch is a feature tensor of dimension 2 and a tensor of preferences. The first three
  lines of the loop body read the columns 0, 1 and 2; nothing looks at the number of columns
  beyond that.
\<close>

type_synonym 'a batch = "'a matrix \<times> 'a tensor"

definition unpack :: "'a batch \<Rightarrow> error + ('a tensor \<times> 'a tensor \<times> 'a tensor \<times> 'a tensor)" where
  "unpack b =
     (case column (fst b) 0 of
        Inl e \<Rightarrow> Inl e
      | Inr users \<Rightarrow>
          (case column (fst b) 1 of
             Inl e \<Rightarrow> Inl e
           | Inr items \<Rightarrow>
               (case column (fst b) 2 of
                  Inl e \<Rightarrow> Inl e
                | Inr rtngs \<Rightarrow> Inr (users, items, rtngs, snd b))))"

text \<open>The rest of the loop body: predictions, confidences, weight, mean loss, backward pass,
  optimizer step, clearing of the gradients.\<close>

definition batch_update ::
  "('a::field, 'o, 'g) Step \<Rightarrow> 'a tensor \<times> 'a tensor \<times> 'a tensor \<times> 'a tensor \<Rightarrow> ('a, 'o, 'g) Step" where
  "batch_update self x =
     (case x of (users, items, rtngs, prefs) \<Rightarrow>
        let confs = conf_func self rtngs;
            self1 = set_weight self confs;
            loss = (\<lambda>m. tensor_mean (objective_call self1 (forward self1 m users items) prefs))
        in optimizer_zero_grad (optimizer_step (loss_backward self1 loss)))"

definition fit_batch :: "('a::field, 'o, 'g) Step \<Rightarrow> 'a batch \<Rightarrow> error option \<times> ('a, 'o, 'g) Step" where
  "fit_batch self b =
     (case unpack b of
        Inl e \<Rightarrow> (Some e, self)
      | Inr x \<Rightarrow> (None, batch_update self x))"

text \<open>The inner loop over the data loader; an exception ends it and leaves the object as
  the batches before it made it.\<close>

fun fit_epoch :: "('a::field, 'o, 'g) Step \<Rightarrow> 'a batch list \<Rightarrow> error option \<times> ('a, 'o, 'g) Step" where
  "fit_epoch self [] = (None, self)"
| "fit_epoch self (b # bs) =
     (case fit_batch self b of
        (Some e, self') \<Rightarrow> (Some e, self')
      | (None, self') \<Rightarrow> fit_epoch self' bs)"

text \<open>The outer loop \<open>for epoch in range(epochs)\<close>, which starts the data loader anew.\<close>

fun fit_epochs ::
  "('a::field, 'o, 'g) Step \<Rightarrow> 'a batch list \<Rightarrow> nat \<Rightarrow> error option \<times> ('a, 'o, 'g) Step" where
  "fit_epochs self data_loader 0 = (None, self)"
| "fit_epochs self data_loader (Suc n) =
     (case fit_epoch self data_loader of
        (Some e, self') \<Rightarrow> (Some e, self')
      | (None, self') \<Rightarrow> fit_epochs self' data_loader n)"

text \<open>\<open>range(epochs)\<close> is empty for \<open>epochs \<le> 0\<close>. The progress bar has no part in the result
  and is left out.\<close>

definition batch_fit ::
  "('a::field, 'o, 'g) Step \<Rightarrow> 'a batch list \<Rightarrow> int \<Rightarrow> error option \<times> ('a, 'o, 'g) Step" where
  "batch_fit self data_loader epochs = fit_epochs (model_train self) data_loader (nat epochs)"

subsection \<open>\<open>Step.step\<close>\<close>

text \<open>
  \<open>rating\<close> and \<open>preference\<close> default to \<open>None\<close>, and \<open>None.to(device)\<close> raises
  AttributeError. The loss is not averaged: \<open>backward()\<close> is called on what the objective
  returns.
\<close>

definition step ::
  "('a, 'o, 'g) Step \<Rightarrow> 'a tensor \<Rightarrow> 'a tensor \<Rightarrow> 'a tensor option \<Rightarrow> 'a tensor option
    \<Rightarrow> error option \<times> ('a, 'o, 'g) Step" where
  "step self user item rating preference =
     (let self0 = model_train self in
      case rating of
        None \<Rightarrow> (Some AttributeError, self0)
      | Some rtng \<Rightarrow>
          (case preference of
             None \<Rightarrow> (Some AttributeError, self0)
           | Some pref \<Rightarrow>
               let conf = conf_func self0 rtng;
                   self1 = set_weight self0 conf;
                   loss = (\<lambda>m. objective_call self1 (forward self1 m user item) pref)
               in if numel (loss (model self1)) \<noteq> 1 then (Some RuntimeError, self1)
                  else (None, optimizer_zero_grad (optimizer_step
                                (loss_backward self1 (\<lambda>m. tensor_item (loss m)))))))"

subsection \<open>\<open>Step.save\<close> and \<open>Step.load\<close>\<close>

text \<open>
  \<open>state_dict()\<close> names the parameters of the model; a file holds what \<open>torch.save\<close> wrote
  there. \<open>load_state_dict\<close> is strict: every parameter of the model needs an entry of its
  shape and no other entry may be there, or it raises RuntimeError, after having copied the
  entries that did fit.
\<close>

type_synonym 'a state_dict = "(string \<times> 'a matrix) list"



fun named_param :: "string \<Rightarrow> 'a matrix attr \<Rightarrow> 'a state_dict" where
  "named_param name (Present E) = [(name, E)]"
| "named_param name a = []"

definition state_dict :: "'a model \<Rightarrow> 'a state_dict" where
  "state_dict m =
     named_param ''user_embeddings.weight'' (user_embeddings m) @
     named_param ''item_embeddings.weight'' (item_embeddings m)"





subsection \<open>Notions the statements use\<close>

text \<open>The \<open>k\<close> ids below \<open>n\<close> with the largest values of \<open>f\<close>, the best one last.\<close>

definition topk_ascending :: "(nat \<Rightarrow> 'a::linorder) \<Rightarrow> nat \<Rightarrow> nat \<Rightarrow> nat list \<Rightarrow> bool" where
  "topk_ascending f n k ps =
     (length ps = k \<and> distinct ps \<and> (\<forall>j\<in>set ps. j < n) \<and>
      (\<forall>i<n. i \<notin> set ps \<longrightarrow> (\<forall>j\<in>set ps. f i \<le> f j)) \<and> sorted (map f ps))"

text \<open>An observation \<open>(user, item, rating, preference)\<close>, the batch of a data loader that holds
  it alone, and the \<open>step\<close> calls of a caller who feeds a sequence of observations one by one,
  each as one-element tensors, until a call raises.\<close>

type_synonym 'a observation = "'a \<times> 'a \<times> 'a \<times> 'a"

definition single_batch :: "'a observation \<Rightarrow> 'a batch" where
  "single_batch e = (case e of (u, i, r, p) \<Rightarrow> (\<lparr>ncols = 3, rows = [[u, i, r]]\<rparr>, Vec [p]))"

definition step_observation ::
  "('a, 'o, 'g) Step \<Rightarrow> 'a observation \<Rightarrow> error option \<times> ('a, 'o, 'g) Step" where
  "step_observation self e =
     (case e of (u, i, r, p) \<Rightarrow> step self (Vec [u]) (Vec [i]) (Some (Vec [r])) (Some (Vec [p])))"

fun sequential_steps ::
  "('a, 'o, 'g) Step \<Rightarrow> 'a observation list \<Rightarrow> error option \<times> ('a, 'o, 'g) Step" where
  "sequential_steps self [] = (None, self)"
| "sequential_steps self (e # es) =
     (case step_observation self e of
        (Some err, self') \<Rightarrow> (Some err, self')
      | (None, self') \<Rightarrow> sequential_steps self' es)"

text \<open>The objective keeps its contract on an observation: whatever the parameters of the
  model are, the loss of the one example is a scalar or has one entry.\<close>

definition single_loss :: "('a, 'o, 'g) Step \<Rightarrow> 'a observation \<Rightarrow> bool" where
  "single_loss self e =
     (case e of (u, i, r, p) \<Rightarrow>
        \<forall>m. numel (objective_call (set_weight self (conf_func self (Vec [r])))
                     (forward self m (Vec [u]) (Vec [i])) (Vec [p])) = 1)"

text \<open>One update of the parameters from a loss: backward pass, optimizer step, clearing of the
  gradients.\<close>

definition applied ::
  "('a, 'o, 'g) Step \<Rightarrow> ('a model \<Rightarrow> 'a loss_value) \<Rightarrow> ('a, 'o, 'g) Step" where
  "applied self loss = optimizer_zero_grad (optimizer_step (loss_backward self loss))"

text \<open>
  The four tensors of a batch the loop body works on: the columns 0, 1 and 2 of the features and
  the preferences.
\<close>

definition columns012 :: "'a batch \<Rightarrow> 'a tensor \<times> 'a tensor \<times> 'a tensor \<times> 'a tensor" where
  "columns012 b =
     (Vec (map (\<lambda>r. r ! 0) (rows (fst b))), Vec (map (\<lambda>r. r ! 1) (rows (fst b))),
      Vec (map (\<lambda>r. r ! 2) (rows (fst b))), snd b)"

text \<open>
  What one optimizer update on a batch is, said on the fields of the engine: the confidences
  of the ratings become the weight of an objective that has one; the mean loss of the batch, as
  a function of the model, is differentiated at the current model into the gradient buffers;
  the optimizer's update is applied once, to its state, these buffers and the current model;
  the buffers are cleared.
\<close>

definition one_optimizer_update ::
  "('a::field, 'o, 'g) Step \<Rightarrow> 'a tensor \<times> 'a tensor \<times> 'a tensor \<times> 'a tensor \<Rightarrow> ('a, 'o, 'g) Step" where
  "one_optimizer_update self x =
     (case x of (users, items, rtngs, prefs) \<Rightarrow>
        let w = (case objective self of
                   Unweighted f \<Rightarrow> objective_weight self
                 | Weighted f \<Rightarrow> Some (conf_func self rtngs));
            loss = (\<lambda>m. tensor_mean
                      (case objective self of
                         Unweighted f \<Rightarrow> f (forward self m users items) prefs
                       | Weighted f \<Rightarrow> f w (forward self m users items) prefs));
            g = autograd self loss (model self) (grads self);
            upd = opt_step_fn self (opt_state self) g (model self)
        in self\<lparr>model := (snd upd)\<lparr>training := training (model self)\<rparr>,
                grads := opt_zero_grad_fn self g,
                objective_weight := w,
                opt_state := fst upd\<rparr>)"

text \<open>Two engines are in the same training state when model, optimizer state and gradient
  buffers agree, and are built from the same parts when they differ in the objective at most.\<close>

definition same_training_state :: "('a, 'o, 'g) Step \<Rightarrow> ('a, 'o, 'g) Step \<Rightarrow> bool" where
  "same_training_state a b = (model a = model b \<and> opt_state a = opt_state b \<and> grads a = grads b)"

definition same_parts :: "('a, 'o, 'g) Step \<Rightarrow> ('a, 'o, 'g) Step \<Rightarrow> bool" where
  "same_parts a b =
     (forward a = forward b \<and> autograd a = autograd b \<and> opt_step_fn a = opt_step_fn b \<and>
      opt_zero_grad_fn a = opt_zero_grad_fn b \<and> conf_func a = conf_func b)"

text \<open>An engine with an objective without weight and one with the weighted objective, with the
  default confidence function, otherwise alike.\<close>

definition weight_twins ::
  "('a tensor \<Rightarrow> 'a tensor \<Rightarrow> 'a tensor) \<Rightarrow> ('a tensor option \<Rightarrow> 'a tensor \<Rightarrow> 'a tensor \<Rightarrow> 'a tensor)
    \<Rightarrow> ('a::one, 'o, 'g) Step \<Rightarrow> ('a, 'o, 'g) Step \<Rightarrow> bool" where
  "weight_twins fu fw a b =
     (objective a = Unweighted fu \<and> objective b = Weighted fw \<and>
      conf_func a = default_conf_func \<and> same_parts a b \<and> same_training_state a b)"

subsection \<open>A small instance\<close>

text \<open>
  One user and three items with embeddings of dimension 2, and collaborators simple enough to
  evaluate: the forward pass is the dot product of the two looked-up rows, the objective the
  squared error of each example (times the weight, where it has one), the gradient buffer a
  number the differentiation adds the loss to, and the optimizer counts its updates and
  moves every entry of the user table by the buffer.
\<close>

definition ex_users :: "rat matrix" where
  "ex_users = \<lparr>ncols = 2, rows = [[1, 0]]\<rparr>"

definition ex_items :: "rat matrix" where
  "ex_items = \<lparr>ncols = 2, rows = [[3, 0], [1, 5], [2, 7]]\<rparr>"

definition ex_model :: "rat model" where
  "ex_model = \<lparr>user_embeddings = Present ex_users, item_embeddings = Present ex_items,
               training = False\<rparr>"

fun ex_row :: "rat matrix attr \<Rightarrow> rat \<Rightarrow> rat list" where
  "ex_row (Present E) x = (if 0 \<le> x \<and> nat \<lfloor>x\<rfloor> < nrows E then rows E ! nat \<lfloor>x\<rfloor> else [])"
| "ex_row a x = []"

fun entries :: "'a tensor \<Rightarrow> 'a list" where
  "entries (Scalar x) = [x]"
| "entries (Vec xs) = xs"

definition ex_forward :: "rat model \<Rightarrow> rat tensor \<Rightarrow> rat tensor \<Rightarrow> rat tensor" where
  "ex_forward m users items =
     Vec (map2 (\<lambda>u i. dot (ex_row (user_embeddings m) u) (ex_row (item_embeddings m) i))
            (entries users) (entries items))"

definition ex_squared_error :: "rat tensor \<Rightarrow> rat tensor \<Rightarrow> rat tensor" where
  "ex_squared_error preds prefs = Vec (map2 (\<lambda>x y. (x - y) * (x - y)) (entries preds) (entries prefs))"

fun ex_weighted_error :: "rat tensor option \<Rightarrow> rat tensor \<Rightarrow> rat tensor \<Rightarrow> rat tensor" where
  "ex_weighted_error None preds prefs = ex_squared_error preds prefs"
| "ex_weighted_error (Some (Scalar w)) preds prefs =
     Vec (map (\<lambda>l. w * l) (entries (ex_squared_error preds prefs)))"
| "ex_weighted_error (Some (Vec ws)) preds prefs =
     Vec (map2 (*) ws (entries (ex_squared_error preds prefs)))"

fun ex_autograd :: "(rat model \<Rightarrow> rat loss_value) \<Rightarrow> rat model \<Rightarrow> rat \<Rightarrow> rat" where
  "ex_autograd loss m g = (case loss m of Value x \<Rightarrow> g + x | NaN \<Rightarrow> g | NotScalar \<Rightarrow> g)"

fun ex_shift :: "rat \<Rightarrow> rat matrix attr \<Rightarrow> rat matrix attr" where
  "ex_shift d (Present E) = Present (E\<lparr>rows := map (map (\<lambda>x. x - d)) (rows E)\<rparr>)"
| "ex_shift d a = a"

definition ex_opt_step :: "nat \<Rightarrow> rat \<Rightarrow> rat model \<Rightarrow> nat \<times> rat model" where
  "ex_opt_step n g m = (Suc n, m\<lparr>user_embeddings := ex_shift g (user_embeddings m)\<rparr>)"

definition ex_step :: "(rat, nat, rat) Step" where
  "ex_step = \<lparr>model = ex_model, forward = ex_forward, grads = 0, autograd = ex_autograd,
              objective = Unweighted ex_squared_error, objective_weight = None,
              opt_step_fn = ex_opt_step, opt_zero_grad_fn = (\<lambda>g. 0), opt_state = 0,
              conf_func = default_conf_func, device = ''cpu''\<rparr>"

definition ex_step_weighted :: "(rat, nat, rat) Step" where
  "ex_step_weighted = ex_step\<lparr>objective := Weighted ex_weighted_error\<rparr>"

definition ex_features4 :: "rat matrix" where
  "ex_features4 = \<lparr>ncols = 4, rows = [[0, 1, 1, 9]]\<rparr>"

definition ex_features2 :: "rat matrix" where
  "ex_features2 = \<lparr>ncols = 2, rows = [[0, 1]]\<rparr>"


text \<open>The engine of the instance with a user table that has no row.\<close>

definition ex_no_users :: "(rat, nat, rat) Step" where
  "ex_no_users = ex_step\<lparr>model := ex_model\<lparr>user_embeddings := Present \<lparr>ncols = 2, rows = []\<rparr>\<rparr>\<rparr>"

section \<open>Properties\<close>

lemmas ex_defs = ex_step_def ex_step_weighted_def ex_model_def ex_users_def ex_items_def
  ex_features4_def ex_features2_def ex_forward_def ex_squared_error_def ex_opt_step_def

lemmas run_defs = batch_fit_def fit_batch_def unpack_def column_def batch_update_def
  set_weight_def objective_call_def loss_backward_def optimizer_step_def optimizer_zero_grad_def
  model_train_def train_mode_def default_conf_func_def dot_def nrows_def single_batch_def

lemmas predict_defs = predict_def predict_result_def eval_mode_def embedding_lookup_def
  lookup_error_def nrows_def matmul_col_def scores_def dot_def argsort_def py_slice_from_def

subsection \<open>Ranking\<close>

lemma argsort_length: "length (argsort xs) = length xs"
  by (simp add: argsort_def)

lemma argsort_set: "set (argsort xs) = {..<length xs}"
  by (auto simp: argsort_def)

lemma argsort_distinct: "distinct (argsort xs)"
  by (simp add: argsort_def)

lemma argsort_sorted: "sorted (map (\<lambda>i. xs ! i) (argsort xs))"
  by (simp add: argsort_def)

lemma sorted_append_le:
  "sorted (map f (xs @ ys)) \<Longrightarrow> x \<in> set xs \<Longrightarrow> y \<in> set ys \<Longrightarrow> f x \<le> f y"
  by (auto simp: sorted_append)

lemma drop_argsort_topk:
  assumes "k \<le> length xs"
  shows "topk_ascending (\<lambda>i. xs ! i) (length xs) k (drop (length xs - k) (argsort xs))"
proof -
  let ?p = "argsort xs" and ?d = "length xs - k"
  have split: "take ?d ?p @ drop ?d ?p = ?p" by simp
  have len: "length (drop ?d ?p) = k" using assms by (simp add: argsort_length)
  have dist: "distinct (drop ?d ?p)" by (simp add: argsort_distinct)
  have rng: "\<forall>j\<in>set (drop ?d ?p). j < length xs"
    using argsort_set [of xs] set_drop_subset [of ?d ?p] by auto
  have srt: "sorted (map (\<lambda>i. xs ! i) (drop ?d ?p))"
    using argsort_sorted [of xs] by (simp add: drop_map [symmetric])
  have low: "\<forall>i<length xs. i \<notin> set (drop ?d ?p) \<longrightarrow> (\<forall>j\<in>set (drop ?d ?p). xs ! i \<le> xs ! j)"
  proof (intro allI impI ballI)
    fix i j assume i: "i < length xs" "i \<notin> set (drop ?d ?p)" and j: "j \<in> set (drop ?d ?p)"
    from i(1) have "i \<in> set ?p" by (simp add: argsort_set)
    then have "i \<in> set (take ?d ?p) \<union> set (drop ?d ?p)"
      by (metis split set_append)
    with i(2) have i': "i \<in> set (take ?d ?p)" by simp
    have "sorted (map (\<lambda>i. xs ! i) (take ?d ?p @ drop ?d ?p))"
      using argsort_sorted [of xs] by (simp only: split)
    from sorted_append_le [OF this i' j] show "xs ! i \<le> xs ! j" .
  qed
  show ?thesis unfolding topk_ascending_def using len dist rng low srt by blast
qed

lemma topk_ascending_cong:
  assumes "\<forall>i<n. f i = g i"
  shows "topk_ascending f n k ps = topk_ascending g n k ps"
proof (cases "\<forall>j\<in>set ps. j < n")
  case True
  with assms have m: "map f ps = map g ps" by simp
  have l: "(\<forall>i<n. i \<notin> set ps \<longrightarrow> (\<forall>j\<in>set ps. f i \<le> f j)) =
           (\<forall>i<n. i \<notin> set ps \<longrightarrow> (\<forall>j\<in>set ps. g i \<le> g j))"
    using True assms by auto
  show ?thesis unfolding topk_ascending_def m l ..
next
  case False
  then show ?thesis unfolding topk_ascending_def by blast
qed

lemma squeeze_col_Vec: "length xs \<noteq> 1 \<Longrightarrow> squeeze_col xs = Vec xs"
  by (cases xs rule: squeeze_col.cases) simp_all

lemma py_slice_from_last: "1 \<le> k \<Longrightarrow> k \<le> int (length xs) \<Longrightarrow>
    py_slice_from (- k) xs = drop (length xs - nat k) xs"
  by (simp add: py_slice_from_def nat_diff_distrib')

lemma scores_nth: "i < nrows V \<Longrightarrow> scores V ue ! i = dot (rows V ! i) ue"
  by (simp add: scores_def nrows_def)

lemma length_scores: "length (scores V ue) = nrows V"
  by (simp add: scores_def nrows_def)

text \<open>
  Claim C1 as the specification states it asks for the ids in descending order of score.
  On the instance (scores 3, 1 and 2 for the items 0, 1 and 2), \<open>predict\<close> for \<open>k = 2\<close> returns
  item 2 before item 0, although item 0 has the higher score: the order is ascending.
\<close>

theorem predict_descending_counterexample:
  "fst (predict ex_step 0 2) = Inr (Vec [2, 0]) \<and>
   dot (rows ex_items ! 2) (rows ex_users ! 0) < dot (rows ex_items ! 0) (rows ex_users ! 0)"
  by (simp add: ex_step_def ex_model_def ex_users_def ex_items_def predict_defs)

text \<open>
  Claim C1, amended: for a user id within the user table, at least two items and
  \<open>1 \<le> k \<le>\<close> the number of items, \<open>predict\<close> returns exactly \<open>k\<close> distinct item ids, no item
  left out has a dot product with the user's embedding above that of a returned one, and the
  returned ids are ordered by ascending score (the best item last). This holds on every device.
\<close>

theorem predict_topk_ascending:
  fixes self :: "('a::linordered_idom, 'o, 'g) Step"
  assumes U: "user_embeddings (model self) = Present U"
    and V: "item_embeddings (model self) = Present V"
    and user: "0 \<le> user" "user < int (nrows U)"
    and dim: "length (rows U ! nat user) = ncols V"
    and k: "1 \<le> k" "k \<le> int (nrows V)" and n: "nrows V \<noteq> 1"
  shows "\<exists>ps. fst (predict self user k) = Inr (Vec ps) \<and>
           topk_ascending (\<lambda>i. dot (rows V ! i) (rows U ! nat user)) (nrows V) (nat k) ps"
proof -
  let ?ue = "rows U ! nat user"
  let ?sc = "scores V ?ue"
  let ?ps = "drop (length ?sc - nat k) (argsort ?sc)"
  have res: "fst (predict self user k) = Inr (Vec (py_slice_from (- k) (argsort ?sc)))"
    using U V user dim n
    by (simp add: predict_def predict_result_def eval_mode_def embedding_lookup_def
        matmul_col_def squeeze_col_Vec length_scores)
  have "py_slice_from (- k) (argsort ?sc) = ?ps"
    using k py_slice_from_last [of k "argsort ?sc"] by (simp add: argsort_length length_scores)
  with res have "fst (predict self user k) = Inr (Vec ?ps)" by simp
  moreover have "topk_ascending (\<lambda>i. ?sc ! i) (length ?sc) (nat k) ?ps"
    using k by (intro drop_argsort_topk) (simp add: length_scores)
  then have "topk_ascending (\<lambda>i. dot (rows V ! i) ?ue) (nrows V) (nat k) ?ps"
    using topk_ascending_cong [of "nrows V" "\<lambda>i. ?sc ! i" "\<lambda>i. dot (rows V ! i) ?ue" "nat k" ?ps]
    by (simp add: scores_nth length_scores)
  ultimately show ?thesis by blast
qed

text \<open>The theorem on the instance: user 0, \<open>k = 2\<close>, three items.\<close>

theorem predict_topk_ascending_witness:
  "user_embeddings (model ex_step) = Present ex_users \<and>
   item_embeddings (model ex_step) = Present ex_items \<and>
   (0::int) \<le> 0 \<and> 0 < int (nrows ex_users) \<and> length (rows ex_users ! nat 0) = ncols ex_items \<and>
   (1::int) \<le> 2 \<and> 2 \<le> int (nrows ex_items) \<and> nrows ex_items \<noteq> 1 \<and>
   (\<exists>ps. fst (predict ex_step 0 2) = Inr (Vec ps) \<and>
      topk_ascending (\<lambda>i. dot (rows ex_items ! i) (rows ex_users ! nat 0)) (nrows ex_items) (nat 2) ps)"
proof -
  have h: "user_embeddings (model ex_step) = Present ex_users"
    "item_embeddings (model ex_step) = Present ex_items"
    "(0::int) \<le> 0" "0 < int (nrows ex_users)" "length (rows ex_users ! nat 0) = ncols ex_items"
    "(1::int) \<le> 2" "2 \<le> int (nrows ex_items)" "nrows ex_items \<noteq> 1"
    by (simp_all add: ex_step_def ex_model_def ex_users_def ex_items_def nrows_def)
  from predict_topk_ascending [OF h] h show ?thesis by blast
qed




subsection \<open>Fields that an update leaves alone\<close>

lemma set_weight_fields [simp]:
  "model (set_weight s c) = model s" "grads (set_weight s c) = grads s"
  "opt_state (set_weight s c) = opt_state s" "forward (set_weight s c) = forward s"
  "autograd (set_weight s c) = autograd s" "objective (set_weight s c) = objective s"
  "opt_step_fn (set_weight s c) = opt_step_fn s"
  "opt_zero_grad_fn (set_weight s c) = opt_zero_grad_fn s"
  "conf_func (set_weight s c) = conf_func s" "device (set_weight s c) = device s"
  by (simp_all add: set_weight_def split: objective.splits)

lemma model_train_fields [simp]:
  "model (model_train s) = train_mode (model s)" "grads (model_train s) = grads s"
  "opt_state (model_train s) = opt_state s" "forward (model_train s) = forward s"
  "autograd (model_train s) = autograd s" "objective (model_train s) = objective s"
  "objective_weight (model_train s) = objective_weight s"
  "opt_step_fn (model_train s) = opt_step_fn s"
  "opt_zero_grad_fn (model_train s) = opt_zero_grad_fn s"
  "conf_func (model_train s) = conf_func s" "device (model_train s) = device s"
  by (simp_all add: model_train_def)

lemma train_mode_fields [simp]:
  "user_embeddings (train_mode m) = user_embeddings m"
  "item_embeddings (train_mode m) = item_embeddings m"
  "training (train_mode m) = True" "train_mode (train_mode m) = train_mode m"
  by (simp_all add: train_mode_def)

lemma train_mode_id: "training m \<Longrightarrow> train_mode m = m"
  by (simp add: train_mode_def)

lemma model_train_idem [simp]: "model_train (model_train s) = model_train s"
  by (simp add: model_train_def)

lemma model_train_id: "training (model s) \<Longrightarrow> model_train s = s"
  by (simp add: model_train_def train_mode_id)

lemma applied_fields:
  "forward (applied s l) = forward s" "autograd (applied s l) = autograd s"
  "objective (applied s l) = objective s" "objective_weight (applied s l) = objective_weight s"
  "opt_step_fn (applied s l) = opt_step_fn s" "opt_zero_grad_fn (applied s l) = opt_zero_grad_fn s"
  "conf_func (applied s l) = conf_func s" "device (applied s l) = device s"
  "training (model (applied s l)) = training (model s)"
  by (simp_all add: applied_def optimizer_zero_grad_def optimizer_step_def loss_backward_def
      split: prod.splits)

lemma applied_state:
  assumes "opt_step_fn s (opt_state s) (autograd s l (model s) (grads s)) (model s) = (st, m)"
  shows "opt_state (applied s l) = st"
    and "model (applied s l) = m\<lparr>training := training (model s)\<rparr>"
    and "grads (applied s l) = opt_zero_grad_fn s (autograd s l (model s) (grads s))"
  using assms
  by (simp_all add: applied_def optimizer_zero_grad_def optimizer_step_def loss_backward_def)

lemma batch_update_applied:
  "batch_update s (users, items, rtngs, prefs) =
     applied (set_weight s (conf_func s rtngs))
       (\<lambda>m. tensor_mean (objective_call (set_weight s (conf_func s rtngs))
                           (forward s m users items) prefs))"
  by (simp add: batch_update_def applied_def Let_def)

lemma batch_update_fields:
  "forward (batch_update s x) = forward s" "autograd (batch_update s x) = autograd s"
  "objective (batch_update s x) = objective s"
  "opt_step_fn (batch_update s x) = opt_step_fn s"
  "opt_zero_grad_fn (batch_update s x) = opt_zero_grad_fn s"
  "conf_func (batch_update s x) = conf_func s" "device (batch_update s x) = device s"
  "training (model (batch_update s x)) = training (model s)"
  by (cases x; simp add: batch_update_applied applied_fields)+

subsection \<open>Batch training\<close>

lemma fit_batch_None:
  "fit_batch s b = (None, s') \<longleftrightarrow> (\<exists>x. unpack b = Inr x \<and> s' = batch_update s x)"
  by (auto simp: fit_batch_def split: sum.splits)

lemma unpack_short: "ncols (fst b) < 3 \<Longrightarrow> unpack b = Inl IndexError"
  by (auto simp: unpack_def column_def)

lemma unpack_wide: "3 \<le> ncols (fst b) \<Longrightarrow> unpack b = Inr (columns012 b)"
  by (simp add: unpack_def column_def columns012_def)

lemma unpack_Inr: "unpack b = Inr x \<Longrightarrow> x = columns012 b \<and> 3 \<le> ncols (fst b)"
  by (cases "3 \<le> ncols (fst b)") (auto simp: unpack_wide unpack_short)

lemma batch_update_is_one_optimizer_update: "batch_update self x = one_optimizer_update self x"
proof -
  obtain users items rtngs prefs where x: "x = (users, items, rtngs, prefs)" by (cases x)
  show ?thesis
    unfolding x
    by (cases "objective self")
       (simp_all add: batch_update_def one_optimizer_update_def Let_def set_weight_def
          objective_call_def optimizer_zero_grad_def optimizer_step_def loss_backward_def
          split: prod.splits)
qed

lemma foldl_batch_update:
  "foldl batch_update self xs = foldl one_optimizer_update self xs"
  by (induction xs arbitrary: self) (simp_all add: batch_update_is_one_optimizer_update)

lemma fit_epoch_columns:
  "fit_epoch s bs = (None, s') \<Longrightarrow>
     s' = foldl batch_update s (map columns012 bs) \<and> (\<forall>b\<in>set bs. 3 \<le> ncols (fst b))"
proof (induction bs arbitrary: s)
  case Nil
  then show ?case by simp
next
  case (Cons b bs)
  from Cons.prems obtain s1 where b: "fit_batch s b = (None, s1)" and rest: "fit_epoch s1 bs = (None, s')"
    by (auto split: prod.splits option.splits)
  from b obtain x where x: "unpack b = Inr x" "s1 = batch_update s x"
    by (auto simp: fit_batch_None)
  from unpack_Inr [OF x(1)] x(2) have "s1 = batch_update s (columns012 b)" "3 \<le> ncols (fst b)"
    by simp_all
  with Cons.IH [OF rest] show ?case by simp
qed

lemma fit_epochs_columns:
  "fit_epochs s bs n = (None, s') \<Longrightarrow>
     s' = foldl batch_update s (map columns012 (concat (replicate n bs))) \<and>
     (0 < n \<longrightarrow> (\<forall>b\<in>set bs. 3 \<le> ncols (fst b)))"
proof (induction n arbitrary: s)
  case 0
  then show ?case by simp
next
  case (Suc n)
  from Suc.prems obtain s1 where e: "fit_epoch s bs = (None, s1)" and rest: "fit_epochs s1 bs n = (None, s')"
    by (auto split: prod.splits option.splits)
  from fit_epoch_columns [OF e] Suc.IH [OF rest] show ?case by simp
qed




lemma fit_epochs_one: "fit_epochs s bs (Suc 0) = fit_epoch s bs"
  by (auto split: prod.splits option.splits)

text \<open>
  Claim C4: when \<open>batch_fit\<close> returns, the engine is the one reached from the engine in
  training mode by one optimizer update per batch per epoch (\<open>one_optimizer_update\<close>: the
  gradient of the batch's mean loss at the current model, one application of the optimizer's
  update to the current model, the gradients cleared), applied from the left to the batches in
  the order of iteration, epoch after epoch; there are as many updates as epochs times
  batches, and with at least one epoch every batch had its three columns.
\<close>

theorem batch_fit_one_update_per_batch:
  assumes "batch_fit self data_loader epochs = (None, self')"
  shows "self' = foldl one_optimizer_update (model_train self)
                   (map columns012 (concat (replicate (nat epochs) data_loader))) \<and>
         length (map columns012 (concat (replicate (nat epochs) data_loader))) =
           nat epochs * length data_loader \<and>
         (0 < epochs \<longrightarrow> (\<forall>b\<in>set data_loader. 3 \<le> ncols (fst b)))"
proof -
  from assms have "fit_epochs (model_train self) data_loader (nat epochs) = (None, self')"
    by (simp add: batch_fit_def)
  from fit_epochs_columns [OF this]
  have "self' = foldl one_optimizer_update (model_train self)
                   (map columns012 (concat (replicate (nat epochs) data_loader)))"
    and "0 < epochs \<longrightarrow> (\<forall>b\<in>set data_loader. 3 \<le> ncols (fst b))"
    by (simp_all add: foldl_batch_update)
  moreover have "length (concat (replicate n data_loader)) = n * length data_loader" for n
    by (induction n) simp_all
  ultimately show ?thesis by simp
qed

text \<open>The theorem on the instance: two batches, two epochs. The optimizer of the instance
  counts its updates and has counted four, and the four updates have moved the user's
  embedding from \<open>(1, 0)\<close> to the value shown.\<close>

theorem batch_fit_one_update_per_batch_witness:
  "batch_fit ex_step [single_batch (0, 1, 1, 3), (ex_features4, Vec [- 22])] 2 =
     (None, snd (batch_fit ex_step [single_batch (0, 1, 1, 3), (ex_features4, Vec [- 22])] 2)) \<and>
   snd (batch_fit ex_step [single_batch (0, 1, 1, 3), (ex_features4, Vec [- 22])] 2) =
     foldl one_optimizer_update (model_train ex_step)
       (map columns012 (concat (replicate (nat 2) [single_batch (0, 1, 1, 3), (ex_features4, Vec [- 22])]))) \<and>
   opt_state (snd (batch_fit ex_step [single_batch (0, 1, 1, 3), (ex_features4, Vec [- 22])] 2)) = 4 \<and>
   user_embeddings (model ex_step) = Present \<lparr>ncols = 2, rows = [[1, 0]]\<rparr> \<and>
   user_embeddings (model (snd (batch_fit ex_step
       [single_batch (0, 1, 1, 3), (ex_features4, Vec [- 22])] 2))) =
     Present \<lparr>ncols = 2, rows = [[- 37835829, - 37835830]]\<rparr>"
proof -
  have r: "fst (batch_fit ex_step [single_batch (0, 1, 1, 3), (ex_features4, Vec [- 22])] 2) = None \<and>
    opt_state (snd (batch_fit ex_step [single_batch (0, 1, 1, 3), (ex_features4, Vec [- 22])] 2)) = 4 \<and>
    user_embeddings (model ex_step) = Present \<lparr>ncols = 2, rows = [[1, 0]]\<rparr> \<and>
    user_embeddings (model (snd (batch_fit ex_step
       [single_batch (0, 1, 1, 3), (ex_features4, Vec [- 22])] 2))) =
     Present \<lparr>ncols = 2, rows = [[- 37835829, - 37835830]]\<rparr>"
    by (simp add: ex_defs run_defs Let_def numeral_2_eq_2)
  then have h: "batch_fit ex_step [single_batch (0, 1, 1, 3), (ex_features4, Vec [- 22])] 2 =
     (None, snd (batch_fit ex_step [single_batch (0, 1, 1, 3), (ex_features4, Vec [- 22])] 2))"
    by (metis prod.collapse)
  from batch_fit_one_update_per_batch [OF h] h r show ?thesis by blast
qed




subsection \<open>Incremental training\<close>

lemma step_applied:
  "step s user item (Some rtng) (Some pref) =
     (let s1 = set_weight (model_train s) (conf_func s rtng);
          loss = (\<lambda>m. objective_call s1 (forward s m user item) pref)
      in if numel (loss (train_mode (model s))) \<noteq> 1 then (Some RuntimeError, s1)
         else (None, applied s1 (\<lambda>m. tensor_item (loss m))))"
  by (simp add: step_def Let_def applied_def)

lemma objective_call_set_weight:
  "objective_call (set_weight s c) preds prefs =
     (case objective s of Unweighted f \<Rightarrow> f preds prefs | Weighted f \<Rightarrow> f (Some c) preds prefs)"
  by (simp add: objective_call_def set_weight_def split: objective.splits)

text \<open>
  Claim C10: a call of \<open>step\<close> without a rating or without a preference (\<open>None\<close> for either)
  raises AttributeError. The engine it leaves is the one it found, switched to training mode:
  the embedding tables, the optimizer state, the gradient buffers and the weight of the
  objective are untouched, and the result does not depend on the forward pass, the objective
  or the optimizer, none of which is called.
\<close>

theorem step_without_rating_or_preference:
  assumes "rating = None \<or> preference = None"
  shows "step self user item rating preference = (Some AttributeError, model_train self) \<and>
         user_embeddings (model (model_train self)) = user_embeddings (model self) \<and>
         item_embeddings (model (model_train self)) = item_embeddings (model self) \<and>
         opt_state (model_train self) = opt_state self \<and> grads (model_train self) = grads self \<and>
         objective_weight (model_train self) = objective_weight self"
  using assms by (auto simp: step_def Let_def split: option.splits)

text \<open>The theorem on the instance: a rating and no preference.\<close>

theorem step_without_rating_or_preference_witness:
  "(Some (Vec [1::rat]) = None \<or> (None :: rat tensor option) = None) \<and>
   step ex_step (Vec [0]) (Vec [1]) (Some (Vec [1])) None = (Some AttributeError, model_train ex_step) \<and>
   user_embeddings (model (model_train ex_step)) = user_embeddings (model ex_step) \<and>
   item_embeddings (model (model_train ex_step)) = item_embeddings (model ex_step) \<and>
   opt_state (model_train ex_step) = opt_state ex_step \<and> grads (model_train ex_step) = grads ex_step \<and>
   objective_weight (model_train ex_step) = objective_weight ex_step"
proof -
  have h: "Some (Vec [1::rat]) = None \<or> (None :: rat tensor option) = None" by simp
  from step_without_rating_or_preference [OF h] h show ?thesis by blast
qed

text \<open>
  Claim C5 as the specification states it covers every valid call, and a valid call may pass
  aligned sequences of more than one observation. On the instance, whose objective returns one
  loss per example, a call with two observations has a loss of two entries; \<open>step\<close> does not
  average it, \<open>backward()\<close> raises RuntimeError, and no optimizer update is applied: the
  optimizer still counts none and the user table is where it was.
\<close>

theorem step_two_observations_counterexample:
  "fst (step ex_step (Vec [0, 0]) (Vec [1, 2]) (Some (Vec [1, 1])) (Some (Vec [3, 1]))) =
     Some RuntimeError \<and>
   opt_state (snd (step ex_step (Vec [0, 0]) (Vec [1, 2]) (Some (Vec [1, 1])) (Some (Vec [3, 1])))) = 0 \<and>
   opt_state ex_step = 0 \<and>
   user_embeddings (model (snd (step ex_step (Vec [0, 0]) (Vec [1, 2]) (Some (Vec [1, 1]))
       (Some (Vec [3, 1]))))) = user_embeddings (model ex_step)"
  by (simp add: step_def ex_defs run_defs Let_def)

text \<open>
  Claim C5, amended: a call of \<open>step\<close> with a rating and a preference, whose loss as the
  objective returns it is a scalar or has one entry (one observation, or an objective that
  reduces), returns without error, and the engine it returns holds the result of one
  application of the optimizer's update: to the optimizer state and the model the call found
  (in training mode), with the gradient of this call's loss added to the buffers; the buffers
  are cleared after it. The update is part of the returned engine, so it is applied when the
  call returns.
\<close>

theorem step_one_optimizer_update:
  assumes "numel (objective_call (set_weight self (conf_func self rtng))
                   (forward self (train_mode (model self)) user item) pref) = 1"
  shows "let self1 = set_weight (model_train self) (conf_func self rtng);
             loss = (\<lambda>m. tensor_item (objective_call self1 (forward self m user item) pref));
             g = autograd self loss (train_mode (model self)) (grads self);
             upd = opt_step_fn self (opt_state self) g (train_mode (model self));
             self' = snd (step self user item (Some rtng) (Some pref))
         in fst (step self user item (Some rtng) (Some pref)) = None \<and>
            opt_state self' = fst upd \<and>
            model self' = (snd upd)\<lparr>training := True\<rparr> \<and>
            grads self' = opt_zero_grad_fn self g"
proof -
  have oc: "objective_call (set_weight (model_train self) c) = objective_call (set_weight self c)" for c
    by (simp add: objective_call_set_weight fun_eq_iff)
  let ?s1 = "set_weight (model_train self) (conf_func self rtng)"
  let ?loss = "\<lambda>m. tensor_item (objective_call ?s1 (forward self m user item) pref)"
  let ?g = "autograd self ?loss (train_mode (model self)) (grads self)"
  obtain st m where upd: "opt_step_fn self (opt_state self) ?g (train_mode (model self)) = (st, m)"
    by (cases "opt_step_fn self (opt_state self) ?g (train_mode (model self))")
  have upd': "opt_step_fn ?s1 (opt_state ?s1) (autograd ?s1 ?loss (model ?s1) (grads ?s1)) (model ?s1) = (st, m)"
    using upd by simp
  have "step self user item (Some rtng) (Some pref) = (None, applied ?s1 ?loss)"
    using assms by (simp add: step_applied Let_def oc)
  then show ?thesis
    using applied_state [OF upd'] upd by (simp add: Let_def)
qed

text \<open>The theorem on the instance: one observation; the optimizer has counted one update and
  the user table has moved.\<close>

theorem step_one_optimizer_update_witness:
  "numel (objective_call (set_weight ex_step (conf_func ex_step (Vec [1])))
            (forward ex_step (train_mode (model ex_step)) (Vec [0]) (Vec [1])) (Vec [3])) = 1 \<and>
   fst (step ex_step (Vec [0]) (Vec [1]) (Some (Vec [1])) (Some (Vec [3]))) = None \<and>
   opt_state (snd (step ex_step (Vec [0]) (Vec [1]) (Some (Vec [1])) (Some (Vec [3])))) = 1 \<and>
   user_embeddings (model (snd (step ex_step (Vec [0]) (Vec [1]) (Some (Vec [1])) (Some (Vec [3]))))) =
     Present \<lparr>ncols = 2, rows = [[- 3, - 4]]\<rparr>"
proof -
  have h: "numel (objective_call (set_weight ex_step (conf_func ex_step (Vec [1])))
            (forward ex_step (train_mode (model ex_step)) (Vec [0]) (Vec [1])) (Vec [3])) = 1"
    by (simp add: ex_defs run_defs)
  from step_one_optimizer_update [OF h] h show ?thesis
    by (simp add: ex_defs run_defs Let_def)
qed

subsection \<open>Batches of one observation against single steps\<close>

lemma tensor_mean_item: "numel t = 1 \<Longrightarrow> tensor_mean t = tensor_item t"
proof (cases t)
  case (Scalar x)
  then show ?thesis by simp
next
  case (Vec xs)
  assume "numel t = 1"
  with Vec obtain x where "xs = [x]" by (cases xs) auto
  with Vec show ?thesis by simp
qed

lemma unpack_single_batch:
  "unpack (single_batch (u, i, r, p)) = Inr (Vec [u], Vec [i], Vec [r], Vec [p])"
  by (simp add: unpack_def single_batch_def column_def)

lemma single_loss_cong:
  "forward s = forward s' \<Longrightarrow> objective s = objective s' \<Longrightarrow> conf_func s = conf_func s' \<Longrightarrow>
     single_loss s e = single_loss s' e"
  by (simp add: single_loss_def objective_call_set_weight split: prod.splits)

lemma fit_batch_is_step:
  assumes tr: "training (model s)" and sl: "single_loss s e"
  shows "fit_batch s (single_batch e) = step_observation s e"
    and "fst (step_observation s e) = None"
    and "\<exists>x. snd (step_observation s e) = batch_update s x"
proof -
  obtain u i r p where e: "e = (u, i, r, p)" by (cases e)
  let ?s1 = "set_weight s (conf_func s (Vec [r]))"
  let ?t = "\<lambda>m. objective_call ?s1 (forward s m (Vec [u]) (Vec [i])) (Vec [p])"
  from sl e have one: "numel (?t m) = 1" for m by (simp add: single_loss_def)
  then have losses: "(\<lambda>m. tensor_mean (?t m)) = (\<lambda>m. tensor_item (?t m))"
    by (simp add: tensor_mean_item)
  from tr have mt: "model_train s = s" by (rule model_train_id)
  have fb: "fit_batch s (single_batch e) =
      (None, batch_update s (Vec [u], Vec [i], Vec [r], Vec [p]))"
    by (simp add: fit_batch_def e unpack_single_batch)
  have bu: "batch_update s (Vec [u], Vec [i], Vec [r], Vec [p]) = applied ?s1 (\<lambda>m. tensor_item (?t m))"
    by (simp add: batch_update_applied losses)
  have st: "step_observation s e = (None, applied ?s1 (\<lambda>m. tensor_item (?t m)))"
    using one by (simp add: step_observation_def e step_applied mt Let_def)
  show "fit_batch s (single_batch e) = step_observation s e" by (simp add: fb bu st)
  show "fst (step_observation s e) = None" by (simp add: st)
  show "\<exists>x. snd (step_observation s e) = batch_update s x" using bu st by (metis snd_conv)
qed

lemma fit_epoch_is_steps:
  assumes "training (model s)" and "\<forall>e\<in>set es. single_loss s e"
  shows "fit_epoch s (map single_batch es) = sequential_steps s es \<and>
         fst (sequential_steps s es) = None"
  using assms
proof (induction es arbitrary: s)
  case Nil
  then show ?case by simp
next
  case (Cons e es)
  from Cons.prems have sl: "single_loss s e" by simp
  note fb = fit_batch_is_step [OF Cons.prems(1) sl]
  from fb(3) obtain x where x: "snd (step_observation s e) = batch_update s x" by blast
  with fb(2) have so: "step_observation s e = (None, batch_update s x)"
    by (cases "step_observation s e") simp
  have tr: "training (model (batch_update s x))"
    using Cons.prems(1) by (simp add: batch_update_fields)
  have "\<forall>e\<in>set es. single_loss (batch_update s x) e"
    using Cons.prems(2) single_loss_cong [of "batch_update s x" s]
    by (simp add: batch_update_fields)
  from Cons.IH [OF tr this] show ?case by (simp add: fb(1) so)
qed

lemma step_model_train: "step (model_train s) u i r p = step s u i r p"
  by (simp add: step_def)

lemma step_training: "training (model (snd (step s u i r p)))"
  by (auto simp: step_def Let_def applied_fields applied_def [symmetric] split: option.splits)

lemma sequential_steps_training:
  "es \<noteq> [] \<Longrightarrow> training (model (snd (sequential_steps s es)))"
proof (induction es arbitrary: s)
  case Nil
  then show ?case by simp
next
  case (Cons e es)
  obtain err s1 where r: "step_observation s e = (err, s1)" by (cases "step_observation s e")
  have "training (model (snd (step_observation s e)))"
    by (simp add: step_observation_def step_training split: prod.splits)
  with r have t1: "training (model s1)" by simp
  show ?case
  proof (cases err)
    case None
    show ?thesis
    proof (cases es)
      case Nil
      with None r t1 show ?thesis by simp
    next
      case (Cons a list)
      with Cons.IH [of s1] None r show ?thesis by simp
    qed
  next
    case (Some a)
    with r t1 show ?thesis by simp
  qed
qed

lemma sequential_steps_model_train:
  "es \<noteq> [] \<Longrightarrow> sequential_steps (model_train s) es = sequential_steps s es"
  by (cases es) (simp_all add: step_observation_def step_model_train split: prod.splits)

text \<open>
  Claim C3: for observations on each of which the objective returns a loss of one entry,
  \<open>batch_fit\<close> with one epoch over the data loader of the single-observation batches, and the
  \<open>step\<close> calls on the same observations in the same order, both run without error and end
  in the same engine: the same model parameters, optimizer state, gradient buffers and
  objective weight (\<open>batch_fit\<close> sets the training mode also when there is no observation).
\<close>

theorem batch_fit_single_batches_is_steps:
  assumes "\<forall>e\<in>set es. single_loss self e"
  shows "batch_fit self (map single_batch es) 1 =
           (None, model_train (snd (sequential_steps self es))) \<and>
         fst (sequential_steps self es) = None"
proof -
  have tr: "training (model (model_train self))" by simp
  have "\<forall>e\<in>set es. single_loss (model_train self) e"
    using assms single_loss_cong [of "model_train self" self] by simp
  from fit_epoch_is_steps [OF tr this]
  have a: "fit_epoch (model_train self) (map single_batch es) = sequential_steps (model_train self) es"
    and b: "fst (sequential_steps (model_train self) es) = None" by simp_all
  have c: "sequential_steps (model_train self) es =
             (fst (sequential_steps self es), model_train (snd (sequential_steps self es)))"
  proof (cases es)
    case Nil
    then show ?thesis by simp
  next
    case (Cons e list)
    then have ne: "es \<noteq> []" by simp
    from sequential_steps_training [OF ne, of self]
    have "model_train (snd (sequential_steps self es)) = snd (sequential_steps self es)"
      by (rule model_train_id)
    with sequential_steps_model_train [OF ne, of self] show ?thesis by simp
  qed
  from b c have d: "fst (sequential_steps self es) = None" by simp
  have "batch_fit self (map single_batch es) 1 = fit_epoch (model_train self) (map single_batch es)"
    by (simp add: batch_fit_def fit_epochs_one del: fit_epochs.simps)
  with a c d show ?thesis by simp
qed

text \<open>The theorem on the instance: two observations.\<close>

theorem batch_fit_single_batches_is_steps_witness:
  "single_loss ex_step (0, 1, 1, 3) \<and> single_loss ex_step (0, 2, 1, 1) \<and>
   batch_fit ex_step (map single_batch [(0, 1, 1, 3), (0, 2, 1, 1)]) 1 =
     (None, model_train (snd (sequential_steps ex_step [(0, 1, 1, 3), (0, 2, 1, 1)]))) \<and>
   fst (sequential_steps ex_step [(0, 1, 1, 3), (0, 2, 1, 1)]) = None"
proof -
  have h: "single_loss ex_step (0, 1, 1, 3)" "single_loss ex_step (0, 2, 1, 1)"
    by (simp_all add: single_loss_def ex_step_def objective_call_def set_weight_def
        ex_squared_error_def ex_forward_def)
  then have "\<forall>e\<in>set [(0, 1, 1, 3), (0, 2, 1, 1)]. single_loss ex_step e" by simp
  from batch_fit_single_batches_is_steps [OF this] h show ?thesis by simp
qed

subsection \<open>Confidence one\<close>

lemma applied_twins:
  assumes "same_parts a b" and "same_training_state a b"
  shows "same_training_state (applied a l) (applied b l)"
  using assms
  by (simp add: same_parts_def same_training_state_def applied_def optimizer_zero_grad_def
      optimizer_step_def loss_backward_def split: prod.splits)

lemma twins_set_weight:
  assumes "weight_twins fu fw a b" and "\<forall>preds prefs. fw (Some (Scalar 1)) preds prefs = fu preds prefs"
  shows "objective_call (set_weight a (conf_func a r)) = fu"
    and "objective_call (set_weight b (conf_func b r)) = fu"
    and "same_parts (set_weight a (conf_func a r)) (set_weight b (conf_func b r))"
    and "same_training_state (set_weight a (conf_func a r)) (set_weight b (conf_func b r))"
  using assms
  by (auto simp: weight_twins_def objective_call_set_weight fun_eq_iff same_parts_def
      same_training_state_def default_conf_func_def)

lemma twins_applied:
  assumes "weight_twins fu fw a b"
  shows "weight_twins fu fw (applied (set_weight a c) l) (applied (set_weight b c') l') =
         same_training_state (applied (set_weight a c) l) (applied (set_weight b c') l')"
  using assms by (auto simp: weight_twins_def same_parts_def applied_fields)

lemma twins_batch_update:
  assumes tw: "weight_twins fu fw a b"
    and H: "\<forall>preds prefs. fw (Some (Scalar 1)) preds prefs = fu preds prefs"
  shows "weight_twins fu fw (batch_update a x) (batch_update b x)"
proof -
  obtain users items rtngs prefs where x: "x = (users, items, rtngs, prefs)" by (cases x)
  note sw = twins_set_weight [OF tw H, of rtngs]
  from tw have f: "forward a = forward b" by (simp add: weight_twins_def same_parts_def)
  show ?thesis
    unfolding x batch_update_applied twins_applied [OF tw] sw(1,2) f
    by (rule applied_twins [OF sw(3,4)])
qed

lemma twins_model_train:
  "weight_twins fu fw a b \<Longrightarrow> weight_twins fu fw (model_train a) (model_train b)"
  by (auto simp: weight_twins_def same_parts_def same_training_state_def)

lemma twins_fit_batch:
  assumes "weight_twins fu fw a b"
    and "\<forall>preds prefs. fw (Some (Scalar 1)) preds prefs = fu preds prefs"
  shows "fst (fit_batch a x) = fst (fit_batch b x) \<and>
         weight_twins fu fw (snd (fit_batch a x)) (snd (fit_batch b x))"
  using assms twins_batch_update [OF assms]
  by (simp add: fit_batch_def split: sum.splits)

lemma twins_fit_epoch:
  assumes "weight_twins fu fw a b"
    and H: "\<forall>preds prefs. fw (Some (Scalar 1)) preds prefs = fu preds prefs"
  shows "fst (fit_epoch a bs) = fst (fit_epoch b bs) \<and>
         weight_twins fu fw (snd (fit_epoch a bs)) (snd (fit_epoch b bs))"
  using assms(1)
proof (induction bs arbitrary: a b)
  case Nil
  then show ?case by simp
next
  case (Cons x bs)
  obtain ea a1 where ra: "fit_batch a x = (ea, a1)" by (cases "fit_batch a x")
  obtain eb b1 where rb: "fit_batch b x = (eb, b1)" by (cases "fit_batch b x")
  from twins_fit_batch [OF Cons.prems H, of x] ra rb
  have e: "ea = eb" and t: "weight_twins fu fw a1 b1" by simp_all
  show ?case
  proof (cases eb)
    case None
    with Cons.IH [OF t] ra rb e show ?thesis by simp
  next
    case (Some err)
    with ra rb e t show ?thesis by simp
  qed
qed

lemma twins_fit_epochs:
  assumes "weight_twins fu fw a b"
    and H: "\<forall>preds prefs. fw (Some (Scalar 1)) preds prefs = fu preds prefs"
  shows "fst (fit_epochs a bs n) = fst (fit_epochs b bs n) \<and>
         weight_twins fu fw (snd (fit_epochs a bs n)) (snd (fit_epochs b bs n))"
  using assms(1)
proof (induction n arbitrary: a b)
  case 0
  then show ?case by simp
next
  case (Suc n)
  obtain ea a1 where ra: "fit_epoch a bs = (ea, a1)" by (cases "fit_epoch a bs")
  obtain eb b1 where rb: "fit_epoch b bs = (eb, b1)" by (cases "fit_epoch b bs")
  from twins_fit_epoch [OF Suc.prems H, of bs] ra rb
  have e: "ea = eb" and t: "weight_twins fu fw a1 b1" by simp_all
  show ?case
  proof (cases eb)
    case None
    with Suc.IH [OF t] ra rb e show ?thesis by simp
  next
    case (Some err)
    with ra rb e t show ?thesis by simp
  qed
qed

lemma twins_step:
  assumes tw: "weight_twins fu fw a b"
    and H: "\<forall>preds prefs. fw (Some (Scalar 1)) preds prefs = fu preds prefs"
  shows "fst (step a user item rating preference) = fst (step b user item rating preference) \<and>
         same_training_state (snd (step a user item rating preference))
                             (snd (step b user item rating preference))"
proof (cases "rating = None \<or> preference = None")
  case True
  with tw show ?thesis
    by (auto simp: step_def Let_def weight_twins_def same_training_state_def split: option.splits)
next
  case False
  then obtain rtng pref where rp: "rating = Some rtng" "preference = Some pref" by auto
  note tw' = twins_model_train [OF tw]
  note sw = twins_set_weight [OF tw' H, of rtng]
  from tw have f: "forward a = forward b" and m: "model a = model b"
    by (simp_all add: weight_twins_def same_parts_def same_training_state_def)
  have ca: "conf_func a = conf_func (model_train a)" and cb: "conf_func b = conf_func (model_train b)"
    by simp_all
  show ?thesis
    unfolding rp step_applied Let_def ca cb sw(1,2) f m
    using sw(4) applied_twins [OF sw(3,4)] by simp
qed

text \<open>
  Claim C9: take an engine whose objective has no weight and one whose objective has a weight
  and, with the weight 1, computes the loss of the first; both with the default confidence
  function (constant 1), the same forward pass, optimizer and differentiation, in the same
  training state. Then \<open>step\<close> on any observation and \<open>batch_fit\<close> on any data loader raise
  the same error or none in both, and leave both in the same training state: the same model
  parameters, optimizer state and gradient buffers.
\<close>

theorem confidence_one_same_updates:
  assumes "objective a = Unweighted fu" and "objective b = Weighted fw"
    and "\<forall>preds prefs. fw (Some (Scalar 1)) preds prefs = fu preds prefs"
    and "conf_func a = default_conf_func" and "same_parts a b" and "same_training_state a b"
  shows "fst (step a user item rating preference) = fst (step b user item rating preference) \<and>
         same_training_state (snd (step a user item rating preference))
                             (snd (step b user item rating preference)) \<and>
         fst (batch_fit a data_loader epochs) = fst (batch_fit b data_loader epochs) \<and>
         same_training_state (snd (batch_fit a data_loader epochs))
                             (snd (batch_fit b data_loader epochs))"
proof -
  from assms have tw: "weight_twins fu fw a b" by (simp add: weight_twins_def)
  from twins_fit_epochs [OF twins_model_train [OF tw] assms(3), of data_loader "nat epochs"]
  have "fst (batch_fit a data_loader epochs) = fst (batch_fit b data_loader epochs) \<and>
        same_training_state (snd (batch_fit a data_loader epochs)) (snd (batch_fit b data_loader epochs))"
    by (simp add: batch_fit_def weight_twins_def)
  with twins_step [OF tw assms(3), of user item rating preference] show ?thesis by simp
qed

text \<open>The theorem on the instance: the squared error and its weighted form.\<close>

theorem confidence_one_same_updates_witness:
  "objective ex_step = Unweighted ex_squared_error \<and>
   objective ex_step_weighted = Weighted ex_weighted_error \<and>
   (\<forall>preds prefs. ex_weighted_error (Some (Scalar 1)) preds prefs = ex_squared_error preds prefs) \<and>
   conf_func ex_step = default_conf_func \<and> same_parts ex_step ex_step_weighted \<and>
   same_training_state ex_step ex_step_weighted \<and>
   fst (step ex_step (Vec [0]) (Vec [1]) (Some (Vec [1])) (Some (Vec [3]))) =
     fst (step ex_step_weighted (Vec [0]) (Vec [1]) (Some (Vec [1])) (Some (Vec [3]))) \<and>
   same_training_state (snd (step ex_step (Vec [0]) (Vec [1]) (Some (Vec [1])) (Some (Vec [3]))))
     (snd (step ex_step_weighted (Vec [0]) (Vec [1]) (Some (Vec [1])) (Some (Vec [3])))) \<and>
   fst (batch_fit ex_step [single_batch (0, 1, 1, 3)] 2) =
     fst (batch_fit ex_step_weighted [single_batch (0, 1, 1, 3)] 2) \<and>
   same_training_state (snd (batch_fit ex_step [single_batch (0, 1, 1, 3)] 2))
     (snd (batch_fit ex_step_weighted [single_batch (0, 1, 1, 3)] 2))"
proof -
  have h: "objective ex_step = Unweighted ex_squared_error"
    "objective ex_step_weighted = Weighted ex_weighted_error"
    "\<forall>preds prefs. ex_weighted_error (Some (Scalar 1)) preds prefs = ex_squared_error preds prefs"
    "conf_func ex_step = default_conf_func" "same_parts ex_step ex_step_weighted"
    "same_training_state ex_step ex_step_weighted"
    by (simp_all add: ex_step_def ex_step_weighted_def same_parts_def same_training_state_def
        ex_squared_error_def)
  from confidence_one_same_updates [OF h] h show ?thesis by blast
qed

subsection \<open>Saving and loading\<close>



subsection \<open>Construction\<close>

text \<open>
  Claim C6 as the specification states it names the exception \<open>MissingEmbeddingError\<close>, a
  \<open>ConfigurationError\<close>. On the instance with \<open>None\<close> for the user table, construction fails
  the assertion: it raises AssertionError.
\<close>

theorem init_missing_embedding_counterexample:
  "init [''cpu''] (ex_step\<lparr>model := ex_model\<lparr>user_embeddings := IsNone\<rparr>\<rparr>) = Inl AssertionError \<and>
   init [''cpu''] (ex_step\<lparr>model := ex_model\<lparr>user_embeddings := IsNone\<rparr>\<rparr>) \<noteq> Inl MissingEmbeddingError \<and>
   init [''cpu''] (ex_step\<lparr>model := ex_model\<lparr>user_embeddings := IsNone\<rparr>\<rparr>) \<noteq> Inl ConfigurationError"
  by (simp add: init_def ex_step_def ex_model_def)

text \<open>
  Claim C6, amended: on a device the machine has, construction looks at the user table first
  and then at the item table; a table that is absent raises AttributeError, a table that is
  \<open>None\<close> raises AssertionError, and when both tables are present (whatever their size)
  construction succeeds and returns the engine as given.
\<close>

theorem init_checks_embeddings:
  assumes "device self \<in> set devices"
  shows "init devices self =
           (case user_embeddings (model self) of
              Missing \<Rightarrow> Inl AttributeError
            | IsNone \<Rightarrow> Inl AssertionError
            | Present U \<Rightarrow>
                (case item_embeddings (model self) of
                   Missing \<Rightarrow> Inl AttributeError
                 | IsNone \<Rightarrow> Inl AssertionError
                 | Present V \<Rightarrow> Inr self))"
  using assms
  by (cases "user_embeddings (model self)"; cases "item_embeddings (model self)")
     (simp_all add: init_def)

text \<open>The theorem on the instance: with both tables construction succeeds, also when the
  user table has no row; without an item table (absent) it raises AttributeError, and with
  \<open>None\<close> for it AssertionError.\<close>

theorem init_checks_embeddings_witness:
  "device ex_step \<in> set [''cpu''] \<and> init [''cpu''] ex_step = Inr ex_step \<and>
   device ex_no_users \<in> set [''cpu''] \<and> init [''cpu''] ex_no_users = Inr ex_no_users \<and>
   device (ex_step\<lparr>model := ex_model\<lparr>item_embeddings := Missing\<rparr>\<rparr>) \<in> set [''cpu''] \<and>
   init [''cpu''] (ex_step\<lparr>model := ex_model\<lparr>item_embeddings := Missing\<rparr>\<rparr>) = Inl AttributeError \<and>
   device (ex_step\<lparr>model := ex_model\<lparr>item_embeddings := IsNone\<rparr>\<rparr>) \<in> set [''cpu''] \<and>
   init [''cpu''] (ex_step\<lparr>model := ex_model\<lparr>item_embeddings := IsNone\<rparr>\<rparr>) = Inl AssertionError"
proof -
  have h: "device ex_step \<in> set [''cpu'']" "device ex_no_users \<in> set [''cpu'']"
    "device (ex_step\<lparr>model := ex_model\<lparr>item_embeddings := Missing\<rparr>\<rparr>) \<in> set [''cpu'']"
    "device (ex_step\<lparr>model := ex_model\<lparr>item_embeddings := IsNone\<rparr>\<rparr>) \<in> set [''cpu'']"
    by (simp_all add: ex_step_def ex_no_users_def)
  have m: "user_embeddings (model ex_step) = Present ex_users"
    "item_embeddings (model ex_step) = Present ex_items"
    "user_embeddings (model ex_no_users) = Present \<lparr>ncols = 2, rows = []\<rparr>"
    "item_embeddings (model ex_no_users) = Present ex_items"
    "user_embeddings ex_model = Present ex_users"
    by (simp_all add: ex_step_def ex_no_users_def ex_model_def)
  from init_checks_embeddings [OF h(1)] init_checks_embeddings [OF h(2)]
    init_checks_embeddings [OF h(3)] init_checks_embeddings [OF h(4)] h m
  show ?thesis by simp
qed

end
